theory Spec2Isabelle
  imports Complex_Main
begin

section \<open>The Bobbie water heater adapter of the Melissa integration\<close>

text \<open>
  A shallow embedding of \<^verbatim>\<open>homeassistant/components/melissa/water_heater.py\<close>.
  The entity object is a record, and every method that assigns to a field of
  \<^verbatim>\<open>self\<close> returns the updated record next to its result. The vendor API client is a
  record of functions of the history of effects, so that the answer of a call may depend
  on every call made before it. Exceptions are values of the type \<open>exn\<close>.
\<close>

subsection \<open>Values, payloads, exceptions\<close>

text \<open>
  The scalar values of a decoded JSON payload. A finite float is written as the real it
  denotes; the module does no arithmetic of its own on it.
\<close>

datatype pyval = PNone | PBool bool | PInt int | PFloat real | PStr string

text \<open>A payload is a Python dict with string keys.\<close>

type_synonym payload = "string \<rightharpoonup> pyval"

text \<open>
  \<open>KeyError\<close> is the one exception the module handles; \<open>Other\<close> stands for every
  exception that is not an instance of it (network, authentication, type errors).
\<close>

datatype exn = KeyError | Other string

text \<open>\<^verbatim>\<open>d[k]\<close> raises on a missing key, \<^verbatim>\<open>d.get(k, default)\<close> does not.\<close>

definition getitem :: "('k \<rightharpoonup> 'v) \<Rightarrow> 'k \<Rightarrow> exn + 'v" where
  "getitem d k = (case d k of None \<Rightarrow> Inl KeyError | Some v \<Rightarrow> Inr v)"

definition get_default :: "('k \<rightharpoonup> 'v) \<Rightarrow> 'k \<Rightarrow> 'v \<Rightarrow> 'v" where
  "get_default d k dflt = (case d k of None \<Rightarrow> dflt | Some v \<Rightarrow> v)"

text \<open>Sequencing of steps that may raise: the first exception ends the computation.\<close>

definition try_bind :: "exn + 'a \<Rightarrow> ('a \<Rightarrow> exn + 'b) \<Rightarrow> exn + 'b" where
  "try_bind r f = (case r of Inl e \<Rightarrow> Inl e | Inr v \<Rightarrow> f v)"

text \<open>\<^verbatim>\<open>x is False\<close> and \<^verbatim>\<open>x is True\<close>: identity with the two bool singletons.\<close>

definition is_False :: "pyval \<Rightarrow> bool" where
  "is_False v = (v = PBool False)"

definition is_True :: "pyval \<Rightarrow> bool" where
  "is_True v = (v = PBool True)"

subsection \<open>Constants\<close>

text \<open>
  Modelled from the spec: the operating-state constants \<^verbatim>\<open>STATE_OFF\<close>,
  \<^verbatim>\<open>STATE_UNKNOWN\<close> (imported from \<^verbatim>\<open>homeassistant.const\<close>) and \<^verbatim>\<open>STATE_ECO\<close>,
  \<^verbatim>\<open>STATE_ELECTRIC\<close> (imported from \<^verbatim>\<open>homeassistant.components.water_heater\<close>) are
  defined outside this file. The spec names the four states OFF, ECO, ELECTRIC and
  UNKNOWN; they are kept symbolic.
\<close>

datatype op_state = STATE_UNKNOWN | STATE_OFF | STATE_ECO | STATE_ELECTRIC

definition SUPPORT_FLAGS :: int where "SUPPORT_FLAGS = 0"
definition ATTR_HOT :: string where "ATTR_HOT = ''hot''"
definition ATTR_COLD :: string where "ATTR_COLD = ''cold''"
definition ATTR_HOME :: string where "ATTR_HOME = ''home''"
definition ATTR_ENERGY :: string where "ATTR_ENERGY = ''energy''"
definition ATTR_VOLTAGE :: string where "ATTR_VOLTAGE = ''voltage''"
definition ATTR_CURRENT :: string where "ATTR_CURRENT = ''current''"
definition ATTR_RELAY :: string where "ATTR_RELAY = ''relay_state''"
definition ATTR_LOAD :: string where "ATTR_LOAD = ''load''"
definition ATTR_SETPOINT :: string where "ATTR_SETPOINT = ''energy_fix_setpoint''"

subsection \<open>Effects and the vendor API client\<close>

datatype level = DEBUG | WARNING

text \<open>
  The effects the module performs, in the order it performs them: the four calls of the
  vendor client with their arguments, \<^verbatim>\<open>asyncio.sleep\<close> with its delay in seconds, and
  a record written to the logger.
\<close>

datatype event =
    FetchDevices
  | Send pyval string "payload option"
  | Sleep nat
  | Status bool
  | CurSettings pyval
  | Log level

type_synonym trace = "event list"

text \<open>
  The client is outside this file. Each of its coroutines is a function of the effects
  performed so far and of the call's arguments, and either raises or returns:
  \<^verbatim>\<open>async_fetch_devices()\<close> a dict of devices (in insertion order),
  \<^verbatim>\<open>async_status(cached=...)\<close> a dict of status payloads by serial number,
  \<^verbatim>\<open>async_cur_settings(serial)\<close> a dict holding the controller settings.
\<close>

record api =
  async_fetch_devices :: "trace \<Rightarrow> exn + (pyval \<times> payload) list"
  async_send :: "trace \<Rightarrow> pyval \<Rightarrow> string \<Rightarrow> payload option \<Rightarrow> exn + unit"
  async_status :: "trace \<Rightarrow> bool \<Rightarrow> exn + (pyval \<rightharpoonup> payload)"
  async_cur_settings :: "trace \<Rightarrow> pyval \<Rightarrow> exn + (string \<rightharpoonup> payload)"

subsection \<open>The entity\<close>

text \<open>
  The fields of \<^verbatim>\<open>BobbieWaterHeater\<close>: \<^verbatim>\<open>_name\<close>, \<^verbatim>\<open>_serial_number\<close>, \<^verbatim>\<open>_data\<close>,
  \<^verbatim>\<open>_state\<close>, \<^verbatim>\<open>_cur_settings\<close>, \<^verbatim>\<open>_status_data\<close>, \<^verbatim>\<open>_attr_available\<close> and
  \<^verbatim>\<open>_attr_current_operation\<close>. \<open>None\<close> is Python's \<^verbatim>\<open>None\<close> for the two caches and
  for the operation. The field \<^verbatim>\<open>_api\<close> is the client, passed to each function that
  calls it.
\<close>

record entity =
  p_name :: pyval
  p_serial_number :: pyval
  p_data :: payload
  p_state :: pyval
  p_cur_settings :: "payload option"
  p_status_data :: "payload option"
  attr_available :: pyval
  attr_current_operation :: "op_state option"

text \<open>
  \<^verbatim>\<open>__init__\<close>. The class attribute \<^verbatim>\<open>_attr_current_operation\<close> comes from the base
  class \<^verbatim>\<open>WaterHeaterEntity\<close>, which is outside this file: its value is the parameter
  \<open>base_operation\<close>. The last statement, \<^verbatim>\<open>self.async_update()\<close>, calls a coroutine
  function without awaiting it: that builds a coroutine object and runs none of its
  body, so it performs no effect and assigns no field.
\<close>

definition init ::
  "op_state option \<Rightarrow> pyval \<Rightarrow> payload \<Rightarrow> trace \<Rightarrow> (exn + entity) \<times> trace" where
  "init base_operation serial_number init_data tr =
     (case getitem init_data ''name'' of
        Inl e \<Rightarrow> (Inl e, tr)
      | Inr n \<Rightarrow>
          (Inr \<lparr> p_name = n,
                 p_serial_number = serial_number,
                 p_data = init_data,
                 p_state = PNone,
                 p_cur_settings = None,
                 p_status_data = None,
                 attr_available = get_default init_data ''online'' (PBool False),
                 attr_current_operation = base_operation \<rparr>,
           tr @ [Log DEBUG]))"

definition name :: "entity \<Rightarrow> pyval" where
  "name self = p_name self"

text \<open>\<^verbatim>\<open>available\<close> assigns \<^verbatim>\<open>_attr_available\<close> when settings are cached.\<close>

definition available :: "entity \<Rightarrow> pyval \<times> entity" where
  "available self =
     (let self' =
        (case p_cur_settings self of
           Some cs \<Rightarrow> self\<lparr>attr_available := get_default cs ''online'' (PBool False)\<rparr>
         | None \<Rightarrow> self)
      in (attr_available self', self'))"

text \<open>A Python function that falls off its end returns \<^verbatim>\<open>None\<close>.\<close>

definition current_temperature :: "entity \<Rightarrow> pyval" where
  "current_temperature self =
     (case p_status_data self of
        Some sd \<Rightarrow> get_default sd ATTR_HOT (PInt 0)
      | None \<Rightarrow> PNone)"

text \<open>
  \<^verbatim>\<open>current_operation\<close>: an \<^verbatim>\<open>if\<close>/\<^verbatim>\<open>elif\<close> chain with no final \<^verbatim>\<open>else\<close>, so a
  load that is neither \<^verbatim>\<open>False\<close> nor \<^verbatim>\<open>True\<close> leaves the attribute as it was. Each
  subscript raises \<open>KeyError\<close> on a missing key, before any assignment.
\<close>

definition current_operation :: "entity \<Rightarrow> (exn + op_state option) \<times> entity" where
  "current_operation self =
     (case p_status_data self of
        None \<Rightarrow>
          (Inr (Some STATE_UNKNOWN), self\<lparr>attr_current_operation := Some STATE_UNKNOWN\<rparr>)
      | Some sd \<Rightarrow>
          (case getitem sd ATTR_RELAY of
             Inl e \<Rightarrow> (Inl e, self)
           | Inr relay \<Rightarrow>
               if is_False relay then
                 (Inr (Some STATE_OFF), self\<lparr>attr_current_operation := Some STATE_OFF\<rparr>)
               else
                 (case getitem sd ATTR_LOAD of
                    Inl e \<Rightarrow> (Inl e, self)
                  | Inr load \<Rightarrow>
                      if is_False load then
                        (Inr (Some STATE_ECO),
                         self\<lparr>attr_current_operation := Some STATE_ECO\<rparr>)
                      else if is_True load then
                        (Inr (Some STATE_ELECTRIC),
                         self\<lparr>attr_current_operation := Some STATE_ELECTRIC\<rparr>)
                      else (Inr (attr_current_operation self), self))))"

definition supported_features :: "entity \<Rightarrow> int" where
  "supported_features self = SUPPORT_FLAGS"

text \<open>
  \<^verbatim>\<open>extra_state_attributes\<close>. \<^verbatim>\<open>show_temp\<close> (the framework's \<^verbatim>\<open>display_temp\<close>) is
  outside this file: the parameter \<open>show_temp\<close> is that function at this entity's
  \<^verbatim>\<open>hass\<close>, \<^verbatim>\<open>temperature_unit\<close> and \<^verbatim>\<open>precision\<close>, and may raise. The dict display
  evaluates its values from top to bottom, so the first failing subscript or conversion
  decides the exception.
\<close>

definition extra_state_attributes ::
  "(pyval \<Rightarrow> exn + pyval) \<Rightarrow> entity \<Rightarrow> exn + payload" where
  "extra_state_attributes show_temp self =
     (case p_status_data self of
        None \<Rightarrow> Inr Map.empty
      | Some sd \<Rightarrow>
          try_bind (getitem sd ATTR_COLD) (\<lambda>c.
          try_bind (show_temp c) (\<lambda>cold.
          try_bind (getitem sd ATTR_HOT) (\<lambda>h.
          try_bind (show_temp h) (\<lambda>hot.
          try_bind (getitem sd ATTR_HOME) (\<lambda>m.
          try_bind (show_temp m) (\<lambda>home.
          try_bind (getitem sd ATTR_ENERGY) (\<lambda>energy.
          try_bind (getitem sd ATTR_VOLTAGE) (\<lambda>voltage.
          try_bind (getitem sd ATTR_CURRENT) (\<lambda>current.
          try_bind (getitem sd ATTR_RELAY) (\<lambda>relay.
          try_bind (getitem sd ATTR_LOAD) (\<lambda>load.
            Inr [ATTR_COLD \<mapsto> cold, ATTR_HOT \<mapsto> hot, ATTR_HOME \<mapsto> home,
                 ATTR_ENERGY \<mapsto> energy, ATTR_VOLTAGE \<mapsto> voltage,
                 ATTR_CURRENT \<mapsto> current, ATTR_RELAY \<mapsto> relay,
                 ATTR_LOAD \<mapsto> load]))))))))))))"

subsection \<open>Updating and commands\<close>

text \<open>
  The \<^verbatim>\<open>except KeyError\<close> clause of \<^verbatim>\<open>async_update\<close>: a \<open>KeyError\<close> is logged and
  swallowed, any other exception leaves the coroutine. The entity is the one at the
  moment the exception was raised.
\<close>

definition except_KeyError :: "exn \<Rightarrow> entity \<Rightarrow> trace \<Rightarrow> exn option \<times> entity \<times> trace" where
  "except_KeyError e self tr =
     (case e of
        KeyError \<Rightarrow> (None, self, tr @ [Log WARNING])
      | Other x \<Rightarrow> (Some (Other x), self, tr))"

text \<open>
  \<^verbatim>\<open>async_update\<close>. The result is the exception that leaves the coroutine (if any), the
  entity and the effects performed. The status cache is assigned as soon as the status
  subscript has succeeded, before the settings are asked for.
\<close>

definition async_update :: "api \<Rightarrow> entity \<Rightarrow> trace \<Rightarrow> exn option \<times> entity \<times> trace" where
  "async_update a self tr =
     (case async_status a tr True of
        Inl e \<Rightarrow> except_KeyError e self (tr @ [Status True])
      | Inr statuses \<Rightarrow>
          (case getitem statuses (p_serial_number self) of
             Inl e \<Rightarrow> except_KeyError e self (tr @ [Status True])
           | Inr sd \<Rightarrow>
               (let self1 = self\<lparr>p_status_data := Some sd\<rparr>;
                    tr1 = tr @ [Status True, Log DEBUG]
                in case async_cur_settings a tr1 (p_serial_number self1) of
                     Inl e \<Rightarrow>
                       except_KeyError e self1 (tr1 @ [CurSettings (p_serial_number self1)])
                   | Inr settings \<Rightarrow>
                       (case getitem settings ''controller'' of
                          Inl e \<Rightarrow>
                            except_KeyError e self1
                              (tr1 @ [CurSettings (p_serial_number self1)])
                        | Inr cs \<Rightarrow>
                            (None, self1\<lparr>p_cur_settings := Some cs\<rparr>,
                             tr1 @ [CurSettings (p_serial_number self1), Log DEBUG])))))"

text \<open>
  The two commands differ in the \<^verbatim>\<open>state_data\<close> they send. An exception of the send
  leaves the coroutine at once; otherwise the coroutine sleeps and then updates.
\<close>

definition send_then_update ::
  "api \<Rightarrow> payload option \<Rightarrow> entity \<Rightarrow> trace \<Rightarrow> exn option \<times> entity \<times> trace" where
  "send_then_update a state_data self tr =
     (case async_send a tr (p_serial_number self) ''bobbie'' state_data of
        Inl e \<Rightarrow> (Some e, self, tr @ [Send (p_serial_number self) ''bobbie'' state_data])
      | Inr _ \<Rightarrow>
          async_update a self
            (tr @ [Send (p_serial_number self) ''bobbie'' state_data, Sleep 10]))"

definition async_turn_on :: "api \<Rightarrow> entity \<Rightarrow> trace \<Rightarrow> exn option \<times> entity \<times> trace" where
  "async_turn_on a self tr = send_then_update a None self tr"

definition async_turn_off :: "api \<Rightarrow> entity \<Rightarrow> trace \<Rightarrow> exn option \<times> entity \<times> trace" where
  "async_turn_off a self tr =
     send_then_update a (Some [''state'' \<mapsto> PStr ''off'']) self tr"

subsection \<open>Platform setup\<close>

text \<open>
  The loop of \<^verbatim>\<open>async_setup_platform\<close> over the devices, with \<^verbatim>\<open>all_devices\<close> as the
  accumulator. A device without \<^verbatim>\<open>"type"\<close>, or a bobbie without
  \<^verbatim>\<open>"serial_number"\<close> or \<^verbatim>\<open>"name"\<close>, raises \<open>KeyError\<close> out of the loop.
\<close>

fun setup_loop ::
  "op_state option \<Rightarrow> payload list \<Rightarrow> entity list \<Rightarrow> trace \<Rightarrow> (exn + entity list) \<times> trace"
where
  "setup_loop base [] all_devices tr = (Inr all_devices, tr)"
| "setup_loop base (device # devices) all_devices tr =
     (case getitem device ''type'' of
        Inl e \<Rightarrow> (Inl e, tr)
      | Inr ty \<Rightarrow>
          if ty = PStr ''bobbie'' then
            (case getitem device ''serial_number'' of
               Inl e \<Rightarrow> (Inl e, tr)
             | Inr sn \<Rightarrow>
                 (case init base sn device tr of
                    (Inl e, tr') \<Rightarrow> (Inl e, tr')
                  | (Inr ent, tr') \<Rightarrow> setup_loop base devices (all_devices @ [ent]) tr'))
          else setup_loop base devices all_devices tr)"

text \<open>
  \<^verbatim>\<open>async_setup_platform\<close>, with the client \<^verbatim>\<open>hass.data[DATA_MELISSA]\<close> as a parameter.
  \<open>Inr all_devices\<close> is the list handed to \<^verbatim>\<open>async_add_entities\<close>; on an exception
  that callback is not reached.
\<close>

definition async_setup_platform ::
  "op_state option \<Rightarrow> api \<Rightarrow> trace \<Rightarrow> (exn + entity list) \<times> trace" where
  "async_setup_platform base a tr =
     (case async_fetch_devices a tr of
        Inl e \<Rightarrow> (Inl e, tr @ [FetchDevices])
      | Inr devices \<Rightarrow> setup_loop base (map snd devices) [] (tr @ [FetchDevices]))"

subsection \<open>The host framework's use of an entity\<close>

text \<open>
  What the host may do with an entity once it is constructed: await one of the three
  coroutines or read one of the properties, in any order. An exception of a call is the
  host's to handle and does not end the entity's life.
\<close>

datatype call =
    Update | TurnOn | TurnOff
  | ReadName | ReadAvailable | ReadCurrentTemperature | ReadCurrentOperation
  | ReadExtraStateAttributes | ReadSupportedFeatures

fun call_step :: "api \<Rightarrow> call \<Rightarrow> entity \<times> trace \<Rightarrow> entity \<times> trace" where
  "call_step a Update (self, tr) = snd (async_update a self tr)"
| "call_step a TurnOn (self, tr) = snd (async_turn_on a self tr)"
| "call_step a TurnOff (self, tr) = snd (async_turn_off a self tr)"
| "call_step a ReadAvailable (self, tr) = (snd (available self), tr)"
| "call_step a ReadCurrentOperation (self, tr) = (snd (current_operation self), tr)"
| "call_step a ReadName (self, tr) = (self, tr)"
| "call_step a ReadCurrentTemperature (self, tr) = (self, tr)"
| "call_step a ReadExtraStateAttributes (self, tr) = (self, tr)"
| "call_step a ReadSupportedFeatures (self, tr) = (self, tr)"

fun calls :: "api \<Rightarrow> call list \<Rightarrow> entity \<times> trace \<Rightarrow> entity \<times> trace" where
  "calls a [] s = s"
| "calls a (c # cs) s = calls a cs (call_step a c s)"

subsection \<open>Concrete inputs\<close>

text \<open>
  One account with a Bobbie and an air conditioner, a status payload for the Bobbie, and
  a client that answers every call; then the same client with one call changed.
\<close>

definition ex_status :: payload where
  "ex_status =
     [ATTR_COLD \<mapsto> PInt 15, ATTR_HOT \<mapsto> PInt 60, ATTR_HOME \<mapsto> PInt 20,
      ATTR_ENERGY \<mapsto> PInt 3, ATTR_VOLTAGE \<mapsto> PInt 230, ATTR_CURRENT \<mapsto> PInt 0,
      ATTR_RELAY \<mapsto> PBool True, ATTR_LOAD \<mapsto> PBool False]"

definition ex_bobbie :: payload where
  "ex_bobbie =
     [''type'' \<mapsto> PStr ''bobbie'', ''serial_number'' \<mapsto> PStr ''SN1'',
      ''name'' \<mapsto> PStr ''Bobbie'', ''online'' \<mapsto> PBool True]"

definition ex_melissa :: payload where
  "ex_melissa =
     [''type'' \<mapsto> PStr ''melissa'', ''serial_number'' \<mapsto> PStr ''SN2'',
      ''name'' \<mapsto> PStr ''Melissa'']"

definition ex_api :: api where
  "ex_api =
     \<lparr> async_fetch_devices = (\<lambda>tr. Inr [(PStr ''SN1'', ex_bobbie), (PStr ''SN2'', ex_melissa)]),
       async_send = (\<lambda>tr sn ty sd. Inr ()),
       async_status = (\<lambda>tr cached. Inr [PStr ''SN1'' \<mapsto> ex_status]),
       async_cur_settings = (\<lambda>tr sn. Inr [''controller'' \<mapsto> [''online'' \<mapsto> PBool True]]) \<rparr>"

text \<open>The status answer has no entry for the serial number.\<close>

definition api_unknown_serial :: api where
  "api_unknown_serial = ex_api\<lparr>async_status := (\<lambda>tr cached. Inr Map.empty)\<rparr>"

text \<open>The settings answer has no \<^verbatim>\<open>"controller"\<close> entry.\<close>

definition api_no_controller :: api where
  "api_no_controller = ex_api\<lparr>async_cur_settings := (\<lambda>tr sn. Inr Map.empty)\<rparr>"

text \<open>The status call, the settings call and the send fail with another exception.\<close>

definition api_status_down :: api where
  "api_status_down = ex_api\<lparr>async_status := (\<lambda>tr cached. Inl (Other ''network''))\<rparr>"

definition api_settings_down :: api where
  "api_settings_down = ex_api\<lparr>async_cur_settings := (\<lambda>tr sn. Inl (Other ''auth''))\<rparr>"

definition api_send_down :: api where
  "api_send_down = ex_api\<lparr>async_send := (\<lambda>tr sn ty sd. Inl (Other ''network''))\<rparr>"

text \<open>A bobbie without a \<^verbatim>\<open>"name"\<close>, listed after a complete one.\<close>

definition ex_nameless :: payload where
  "ex_nameless = [''type'' \<mapsto> PStr ''bobbie'', ''serial_number'' \<mapsto> PStr ''SN3'']"

definition api_nameless :: api where
  "api_nameless =
     ex_api\<lparr>async_fetch_devices :=
       (\<lambda>tr. Inr [(PStr ''SN1'', ex_bobbie), (PStr ''SN3'', ex_nameless)])\<rparr>"

text \<open>The status payload without its hot temperature.\<close>

definition ex_status_no_hot :: payload where
  "ex_status_no_hot =
     [ATTR_COLD \<mapsto> PInt 15, ATTR_HOME \<mapsto> PInt 20,
      ATTR_ENERGY \<mapsto> PInt 3, ATTR_VOLTAGE \<mapsto> PInt 230, ATTR_CURRENT \<mapsto> PInt 0,
      ATTR_RELAY \<mapsto> PBool True, ATTR_LOAD \<mapsto> PBool False]"

text \<open>An entity with the given status and settings caches, and the flag \<^verbatim>\<open>False\<close>.\<close>

definition ex_entity :: "payload option \<Rightarrow> payload option \<Rightarrow> entity" where
  "ex_entity sd cs =
     \<lparr> p_name = PStr ''Bobbie'', p_serial_number = PStr ''SN1'',
       p_data = ex_bobbie, p_state = PNone,
       p_cur_settings = cs, p_status_data = sd,
       attr_available = PBool False, attr_current_operation = None \<rparr>"

section \<open>Properties\<close>

lemmas ATTR_defs =
  ATTR_HOT_def ATTR_COLD_def ATTR_HOME_def ATTR_ENERGY_def ATTR_VOLTAGE_def
  ATTR_CURRENT_def ATTR_RELAY_def ATTR_LOAD_def

lemmas update_defs = async_update_def except_KeyError_def getitem_def Let_def

subsection \<open>What each operation leaves alone\<close>

lemma async_update_frame:
  "p_name (fst (snd (async_update a self tr))) = p_name self \<and>
   p_serial_number (fst (snd (async_update a self tr))) = p_serial_number self \<and>
   p_data (fst (snd (async_update a self tr))) = p_data self \<and>
   p_state (fst (snd (async_update a self tr))) = p_state self \<and>
   attr_available (fst (snd (async_update a self tr))) = attr_available self \<and>
   attr_current_operation (fst (snd (async_update a self tr))) = attr_current_operation self"
  by (simp add: update_defs split: sum.splits option.splits exn.splits)

text \<open>An update never empties the settings cache.\<close>

lemma async_update_settings_kept:
  "p_cur_settings (fst (snd (async_update a self tr))) = None \<Longrightarrow> p_cur_settings self = None"
  by (simp add: update_defs split: sum.splits option.splits exn.splits)

text \<open>An update starts with the status call and sends and sleeps no more.\<close>

lemma async_update_trace:
  "\<exists>evs. snd (snd (async_update a self tr)) = tr @ Status True # evs \<and>
     set evs \<subseteq> {Log DEBUG, Log WARNING, CurSettings (p_serial_number self)}"
  by (simp add: update_defs split: sum.splits option.splits exn.splits)

lemma send_then_update_frame:
  "p_data (fst (snd (send_then_update a sd self tr))) = p_data self \<and>
   attr_available (fst (snd (send_then_update a sd self tr))) = attr_available self \<and>
   (p_cur_settings (fst (snd (send_then_update a sd self tr))) = None \<longrightarrow>
      p_cur_settings self = None)"
  using async_update_frame async_update_settings_kept
  by (simp add: send_then_update_def split: sum.splits)

lemma current_operation_frame:
  "p_name (snd (current_operation self)) = p_name self \<and>
   p_serial_number (snd (current_operation self)) = p_serial_number self \<and>
   p_data (snd (current_operation self)) = p_data self \<and>
   p_state (snd (current_operation self)) = p_state self \<and>
   p_cur_settings (snd (current_operation self)) = p_cur_settings self \<and>
   p_status_data (snd (current_operation self)) = p_status_data self \<and>
   attr_available (snd (current_operation self)) = attr_available self"
  by (simp add: current_operation_def getitem_def split: option.splits)

lemma available_frame:
  "p_name (snd (available self)) = p_name self \<and>
   p_serial_number (snd (available self)) = p_serial_number self \<and>
   p_data (snd (available self)) = p_data self \<and>
   p_state (snd (available self)) = p_state self \<and>
   p_cur_settings (snd (available self)) = p_cur_settings self \<and>
   p_status_data (snd (available self)) = p_status_data self \<and>
   attr_current_operation (snd (available self)) = attr_current_operation self"
  by (simp add: available_def Let_def split: option.splits)

lemma available_unfetched:
  "p_cur_settings self = None \<Longrightarrow> available self = (attr_available self, self)"
  by (simp add: available_def)

text \<open>
  Where a subscript of \<^verbatim>\<open>current_operation\<close>, of \<^verbatim>\<open>extra_state_attributes\<close> or of
  the setup loop finds no key, \<open>KeyError\<close> is raised and nothing has been assigned.
\<close>

lemma current_operation_missing_key:
  "p_status_data self = Some sd \<Longrightarrow> sd ATTR_RELAY = None \<Longrightarrow>
     current_operation self = (Inl KeyError, self)"
  by (simp add: current_operation_def getitem_def)

lemma extra_state_attributes_missing_key:
  "p_status_data self = Some sd \<Longrightarrow> sd ATTR_COLD = None \<Longrightarrow>
     extra_state_attributes show_temp self = Inl KeyError"
  by (simp add: extra_state_attributes_def try_bind_def getitem_def)

lemma setup_loop_missing_type:
  "device ''type'' = None \<Longrightarrow>
     setup_loop base (device # devices) all_devices tr = (Inl KeyError, tr)"
  by (simp add: getitem_def)

subsection \<open>The operating state\<close>

text \<open>
  C1. \<^verbatim>\<open>current_operation\<close> derives the operating state from the cached status, the
  cases read in the order of the chain: UNKNOWN when the status cache is \<^verbatim>\<open>None\<close>; OFF
  when the payload's relay flag is \<^verbatim>\<open>False\<close>; ECO when the relay flag is not \<^verbatim>\<open>False\<close>
  and the load flag is \<^verbatim>\<open>False\<close>; ELECTRIC when the relay flag is not \<^verbatim>\<open>False\<close> and the
  load flag is \<^verbatim>\<open>True\<close>.
\<close>

theorem current_operation_derivation:
  "(p_status_data self = None \<longrightarrow>
      fst (current_operation self) = Inr (Some STATE_UNKNOWN)) \<and>
   (p_status_data self = Some sd \<and> sd ATTR_RELAY = Some (PBool False) \<longrightarrow>
      fst (current_operation self) = Inr (Some STATE_OFF)) \<and>
   (p_status_data self = Some sd \<and> sd ATTR_RELAY = Some relay \<and> relay \<noteq> PBool False \<and>
    sd ATTR_LOAD = Some (PBool False) \<longrightarrow>
      fst (current_operation self) = Inr (Some STATE_ECO)) \<and>
   (p_status_data self = Some sd \<and> sd ATTR_RELAY = Some relay \<and> relay \<noteq> PBool False \<and>
    sd ATTR_LOAD = Some (PBool True) \<longrightarrow>
      fst (current_operation self) = Inr (Some STATE_ELECTRIC))"
  by (simp add: current_operation_def getitem_def is_False_def is_True_def)

theorem current_operation_derivation_witness:
  "fst (current_operation (ex_entity None None)) = Inr (Some STATE_UNKNOWN) \<and>
   fst (current_operation
     (ex_entity (Some [ATTR_RELAY \<mapsto> PBool False, ATTR_LOAD \<mapsto> PBool True]) None)) =
     Inr (Some STATE_OFF) \<and>
   fst (current_operation
     (ex_entity (Some [ATTR_RELAY \<mapsto> PBool True, ATTR_LOAD \<mapsto> PBool False]) None)) =
     Inr (Some STATE_ECO) \<and>
   fst (current_operation
     (ex_entity (Some [ATTR_RELAY \<mapsto> PBool True, ATTR_LOAD \<mapsto> PBool True]) None)) =
     Inr (Some STATE_ELECTRIC)"
  using current_operation_derivation [of "ex_entity None None"]
    current_operation_derivation [of
      "ex_entity (Some [ATTR_RELAY \<mapsto> PBool False, ATTR_LOAD \<mapsto> PBool True]) None"
      "[ATTR_RELAY \<mapsto> PBool False, ATTR_LOAD \<mapsto> PBool True]"]
    current_operation_derivation [of
      "ex_entity (Some [ATTR_RELAY \<mapsto> PBool True, ATTR_LOAD \<mapsto> PBool False]) None"
      "[ATTR_RELAY \<mapsto> PBool True, ATTR_LOAD \<mapsto> PBool False]" "PBool True"]
    current_operation_derivation [of
      "ex_entity (Some [ATTR_RELAY \<mapsto> PBool True, ATTR_LOAD \<mapsto> PBool True]) None"
      "[ATTR_RELAY \<mapsto> PBool True, ATTR_LOAD \<mapsto> PBool True]" "PBool True"]
  by (simp add: ex_entity_def ATTR_defs)

subsection \<open>Updating\<close>

text \<open>
  C2, as stated, fails: when the settings answer has no \<^verbatim>\<open>"controller"\<close> entry, the
  \<open>KeyError\<close> is swallowed, but the status cache, assigned two statements earlier,
  already holds the new payload.
\<close>

theorem async_update_partial_counterexample:
  "async_cur_settings api_no_controller [Status True, Log DEBUG] (PStr ''SN1'') =
     Inr Map.empty \<and>
   fst (async_update api_no_controller (ex_entity None None) []) = None \<and>
   p_status_data (ex_entity None None) = None \<and>
   p_status_data (fst (snd (async_update api_no_controller (ex_entity None None) []))) =
     Some ex_status"
  by (simp add: update_defs api_no_controller_def ex_api_def ex_entity_def)

text \<open>
  C2 (amended). A missing key is caught and logged in both places. When the status answer
  has no entry for the serial number, the entity is left exactly as it was. When the
  settings answer has no \<^verbatim>\<open>"controller"\<close> entry, the settings cache is left as it was
  and the status cache holds the payload just fetched.
\<close>

theorem async_update_missing_key:
  "(async_status a tr True = Inr statuses \<and> statuses (p_serial_number self) = None \<longrightarrow>
      async_update a self tr = (None, self, tr @ [Status True, Log WARNING])) \<and>
   (async_status a tr True = Inr statuses \<and> statuses (p_serial_number self) = Some sd \<and>
    async_cur_settings a (tr @ [Status True, Log DEBUG]) (p_serial_number self) = Inr settings \<and>
    settings ''controller'' = None \<longrightarrow>
      async_update a self tr =
        (None, self\<lparr>p_status_data := Some sd\<rparr>,
         tr @ [Status True, Log DEBUG, CurSettings (p_serial_number self), Log WARNING]))"
  by (simp add: update_defs split: sum.splits option.splits exn.splits)

theorem async_update_missing_key_witness:
  "async_update api_unknown_serial (ex_entity None None) [] =
     (None, ex_entity None None, [Status True, Log WARNING]) \<and>
   async_update api_no_controller (ex_entity None None) [] =
     (None, ex_entity (Some ex_status) None,
      [Status True, Log DEBUG, CurSettings (PStr ''SN1''), Log WARNING])"
  using async_update_missing_key [of api_unknown_serial "[]" Map.empty "ex_entity None None"]
    async_update_missing_key [of api_no_controller "[]" "[PStr ''SN1'' \<mapsto> ex_status]"
      "ex_entity None None" ex_status Map.empty]
  by (simp add: api_unknown_serial_def api_no_controller_def ex_api_def ex_entity_def)

text \<open>
  C3. \<^verbatim>\<open>async_update\<close> never raises \<open>KeyError\<close>: a missing key in either subscript makes
  it return normally. Any other exception of the status call or of the settings call
  leaves \<^verbatim>\<open>async_update\<close> as it is.
\<close>

theorem async_update_exceptions:
  "fst (async_update a self tr) \<noteq> Some KeyError \<and>
   (async_status a tr True = Inr statuses \<and> statuses (p_serial_number self) = None \<longrightarrow>
      fst (async_update a self tr) = None) \<and>
   (async_status a tr True = Inr statuses \<and> statuses (p_serial_number self) = Some sd \<and>
    async_cur_settings a (tr @ [Status True, Log DEBUG]) (p_serial_number self) = Inr settings \<and>
    settings ''controller'' = None \<longrightarrow>
      fst (async_update a self tr) = None) \<and>
   (async_status a tr True = Inl (Other x) \<longrightarrow>
      fst (async_update a self tr) = Some (Other x)) \<and>
   (async_status a tr True = Inr statuses \<and> statuses (p_serial_number self) = Some sd \<and>
    async_cur_settings a (tr @ [Status True, Log DEBUG]) (p_serial_number self) = Inl (Other x) \<longrightarrow>
      fst (async_update a self tr) = Some (Other x))"
  by (simp add: update_defs split: sum.splits option.splits exn.splits)

theorem async_update_exceptions_witness:
  "fst (async_update api_unknown_serial (ex_entity None None) []) = None \<and>
   fst (async_update api_no_controller (ex_entity None None) []) = None \<and>
   fst (async_update api_status_down (ex_entity None None) []) = Some (Other ''network'') \<and>
   fst (async_update api_settings_down (ex_entity None None) []) = Some (Other ''auth'')"
  using async_update_exceptions [of api_unknown_serial "ex_entity None None" "[]" Map.empty]
    async_update_exceptions [of api_no_controller "ex_entity None None" "[]"
      "[PStr ''SN1'' \<mapsto> ex_status]" ex_status Map.empty]
    async_update_exceptions [of api_status_down "ex_entity None None" "[]" _ _ _ "''network''"]
    async_update_exceptions [of api_settings_down "ex_entity None None" "[]"
      "[PStr ''SN1'' \<mapsto> ex_status]" ex_status _ "''auth''"]
  by (simp add: api_unknown_serial_def api_no_controller_def api_status_down_def
      api_settings_down_def ex_api_def ex_entity_def)

subsection \<open>Who writes the cached fields\<close>

text \<open>
  C4, as stated, fails: the availability flag is one of the cached fields, and reading
  \<^verbatim>\<open>available\<close> assigns it.
\<close>

theorem available_writes_counterexample:
  "attr_available (ex_entity None (Some [''online'' \<mapsto> PBool True])) = PBool False \<and>
   attr_available (snd (available (ex_entity None (Some [''online'' \<mapsto> PBool True])))) =
     PBool True"
  by (simp add: available_def get_default_def ex_entity_def)

text \<open>
  C4 (amended). The status cache and the settings cache are written only by an update,
  awaited directly or at the end of a command, and each is replaced as a whole by the
  payload fetched; no property writes them. The availability flag is not written by an
  update: only the property \<^verbatim>\<open>available\<close> writes it, with the \<^verbatim>\<open>"online"\<close> entry of the
  cached settings (\<^verbatim>\<open>False\<close> when absent), and only when settings are cached.
\<close>

theorem cache_writers:
  "(c \<notin> {Update, TurnOn, TurnOff} \<longrightarrow>
      p_status_data (fst (call_step a c (self, tr))) = p_status_data self \<and>
      p_cur_settings (fst (call_step a c (self, tr))) = p_cur_settings self) \<and>
   (c \<noteq> ReadAvailable \<longrightarrow>
      attr_available (fst (call_step a c (self, tr))) = attr_available self) \<and>
   p_status_data (snd (available self)) = p_status_data self \<and>
   p_cur_settings (snd (available self)) = p_cur_settings self \<and>
   p_status_data (snd (current_operation self)) = p_status_data self \<and>
   p_cur_settings (snd (current_operation self)) = p_cur_settings self \<and>
   attr_available (fst (snd (async_update a self tr))) = attr_available self \<and>
   (async_status a tr True = Inr statuses \<and> statuses (p_serial_number self) = Some sd \<longrightarrow>
      p_status_data (fst (snd (async_update a self tr))) = Some sd) \<and>
   (async_status a tr True = Inr statuses \<and> statuses (p_serial_number self) = Some sd \<and>
    async_cur_settings a (tr @ [Status True, Log DEBUG]) (p_serial_number self) = Inr settings \<and>
    settings ''controller'' = Some cs \<longrightarrow>
      p_cur_settings (fst (snd (async_update a self tr))) = Some cs) \<and>
   (p_cur_settings self = Some cs \<longrightarrow>
      attr_available (snd (available self)) =
        (case cs ''online'' of None \<Rightarrow> PBool False | Some v \<Rightarrow> v)) \<and>
   (p_cur_settings self = None \<longrightarrow> snd (available self) = self)"
proof -
  have reads: "c \<notin> {Update, TurnOn, TurnOff} \<longrightarrow>
      p_status_data (fst (call_step a c (self, tr))) = p_status_data self \<and>
      p_cur_settings (fst (call_step a c (self, tr))) = p_cur_settings self"
    using available_frame [of self] current_operation_frame [of self]
    by (cases c) simp_all
  have flag: "c \<noteq> ReadAvailable \<longrightarrow>
      attr_available (fst (call_step a c (self, tr))) = attr_available self"
    using async_update_frame [of a self tr] send_then_update_frame [of a _ self tr]
      current_operation_frame [of self]
    by (cases c) (simp_all add: async_turn_on_def async_turn_off_def)
  have status: "async_status a tr True = Inr statuses \<and>
      statuses (p_serial_number self) = Some sd \<longrightarrow>
      p_status_data (fst (snd (async_update a self tr))) = Some sd"
    by (simp add: update_defs split: sum.splits option.splits exn.splits)
  have settings: "async_status a tr True = Inr statuses \<and>
    statuses (p_serial_number self) = Some sd \<and>
    async_cur_settings a (tr @ [Status True, Log DEBUG]) (p_serial_number self) = Inr settings \<and>
    settings ''controller'' = Some cs \<longrightarrow>
      p_cur_settings (fst (snd (async_update a self tr))) = Some cs"
    by (simp add: update_defs)
  have online: "(p_cur_settings self = Some cs \<longrightarrow>
      attr_available (snd (available self)) =
        (case cs ''online'' of None \<Rightarrow> PBool False | Some v \<Rightarrow> v)) \<and>
   (p_cur_settings self = None \<longrightarrow> snd (available self) = self)"
    by (simp add: available_def get_default_def)
  from reads flag status settings online available_frame [of self]
    current_operation_frame [of self] async_update_frame [of a self tr]
  show ?thesis by simp
qed

theorem cache_writers_witness:
  "p_status_data (fst (call_step ex_api ReadCurrentOperation
      (ex_entity (Some ex_status) None, []))) = Some ex_status \<and>
   attr_available (fst (call_step ex_api Update (ex_entity None None, []))) = PBool False \<and>
   p_status_data (fst (snd (async_update ex_api (ex_entity None None) []))) = Some ex_status \<and>
   p_cur_settings (fst (snd (async_update ex_api (ex_entity None None) []))) =
     Some [''online'' \<mapsto> PBool True] \<and>
   attr_available (snd (available (ex_entity None (Some [''online'' \<mapsto> PBool True])))) =
     PBool True \<and>
   attr_available (snd (available (ex_entity None (Some Map.empty)))) = PBool False \<and>
   snd (available (ex_entity None None)) = ex_entity None None"
  using cache_writers [of ReadCurrentOperation ex_api "ex_entity (Some ex_status) None" "[]"]
    cache_writers [of Update ex_api "ex_entity None None" "[]"
      "[PStr ''SN1'' \<mapsto> ex_status]" ex_status
      "[''controller'' \<mapsto> [''online'' \<mapsto> PBool True]]" "[''online'' \<mapsto> PBool True]"]
    cache_writers [of Update ex_api
      "ex_entity None (Some [''online'' \<mapsto> PBool True])" "[]" _ _ _
      "[''online'' \<mapsto> PBool True]"]
    cache_writers [of Update ex_api "ex_entity None (Some Map.empty)" "[]" _ _ _ Map.empty]
  by (simp add: ex_api_def ex_entity_def)

subsection \<open>Commands\<close>

lemma send_then_update_order:
  "(async_send a tr (p_serial_number self) ''bobbie'' sd = Inr () \<longrightarrow>
      send_then_update a sd self tr =
        async_update a self (tr @ [Send (p_serial_number self) ''bobbie'' sd, Sleep 10]) \<and>
      (\<exists>evs. snd (snd (send_then_update a sd self tr)) =
         tr @ [Send (p_serial_number self) ''bobbie'' sd, Sleep 10, Status True] @ evs \<and>
         set evs \<subseteq> {Log DEBUG, Log WARNING, CurSettings (p_serial_number self)})) \<and>
   (async_send a tr (p_serial_number self) ''bobbie'' sd = Inl e \<longrightarrow>
      send_then_update a sd self tr =
        (Some e, self, tr @ [Send (p_serial_number self) ''bobbie'' sd]))"
proof -
  let ?tr = "tr @ [Send (p_serial_number self) ''bobbie'' sd, Sleep 10]"
  obtain evs where "snd (snd (async_update a self ?tr)) = ?tr @ Status True # evs"
    and "set evs \<subseteq> {Log DEBUG, Log WARNING, CurSettings (p_serial_number self)}"
    using async_update_trace [of a self ?tr] by blast
  then show ?thesis
    by (simp add: send_then_update_def)
qed

text \<open>
  C5. \<^verbatim>\<open>async_turn_on\<close> and \<^verbatim>\<open>async_turn_off\<close> first send one command for the entity's
  serial number (\<^verbatim>\<open>state_data\<close> \<^verbatim>\<open>None\<close> to turn on, \<^verbatim>\<open>{"state": "off"}\<close> to turn off).
  When the send returns they sleep 10 seconds and then run the update, whose first effect
  is the status call; no further send or sleep follows. When the send raises, nothing
  follows it. So no status is fetched before the send has returned.
\<close>

theorem command_order:
  "(async_send a tr (p_serial_number self) ''bobbie'' None = Inr () \<longrightarrow>
      async_turn_on a self tr =
        async_update a self (tr @ [Send (p_serial_number self) ''bobbie'' None, Sleep 10]) \<and>
      (\<exists>evs. snd (snd (async_turn_on a self tr)) =
         tr @ [Send (p_serial_number self) ''bobbie'' None, Sleep 10, Status True] @ evs \<and>
         set evs \<subseteq> {Log DEBUG, Log WARNING, CurSettings (p_serial_number self)})) \<and>
   (async_send a tr (p_serial_number self) ''bobbie'' None = Inl e \<longrightarrow>
      async_turn_on a self tr =
        (Some e, self, tr @ [Send (p_serial_number self) ''bobbie'' None])) \<and>
   (async_send a tr (p_serial_number self) ''bobbie'' (Some [''state'' \<mapsto> PStr ''off'']) =
      Inr () \<longrightarrow>
      async_turn_off a self tr =
        async_update a self
          (tr @ [Send (p_serial_number self) ''bobbie'' (Some [''state'' \<mapsto> PStr ''off'']),
                 Sleep 10]) \<and>
      (\<exists>evs. snd (snd (async_turn_off a self tr)) =
         tr @ [Send (p_serial_number self) ''bobbie'' (Some [''state'' \<mapsto> PStr ''off'']),
               Sleep 10, Status True] @ evs \<and>
         set evs \<subseteq> {Log DEBUG, Log WARNING, CurSettings (p_serial_number self)})) \<and>
   (async_send a tr (p_serial_number self) ''bobbie'' (Some [''state'' \<mapsto> PStr ''off'']) =
      Inl e' \<longrightarrow>
      async_turn_off a self tr =
        (Some e', self,
         tr @ [Send (p_serial_number self) ''bobbie'' (Some [''state'' \<mapsto> PStr ''off''])]))"
  unfolding async_turn_on_def async_turn_off_def
  using send_then_update_order [of a tr self None e]
    send_then_update_order [of a tr self "Some [''state'' \<mapsto> PStr ''off'']" e']
  by blast

theorem command_order_witness:
  "snd (snd (async_turn_on ex_api (ex_entity None None) [])) =
     [Send (PStr ''SN1'') ''bobbie'' None, Sleep 10, Status True, Log DEBUG,
      CurSettings (PStr ''SN1''), Log DEBUG] \<and>
   snd (snd (async_turn_off ex_api (ex_entity None None) [])) =
     [Send (PStr ''SN1'') ''bobbie'' (Some [''state'' \<mapsto> PStr ''off'']), Sleep 10,
      Status True, Log DEBUG, CurSettings (PStr ''SN1''), Log DEBUG] \<and>
   async_turn_on api_send_down (ex_entity None None) [] =
     (Some (Other ''network''), ex_entity None None,
      [Send (PStr ''SN1'') ''bobbie'' None]) \<and>
   async_turn_off api_send_down (ex_entity None None) [] =
     (Some (Other ''network''), ex_entity None None,
      [Send (PStr ''SN1'') ''bobbie'' (Some [''state'' \<mapsto> PStr ''off''])])"
  using command_order [of ex_api "[]" "ex_entity None None"]
    command_order [of api_send_down "[]" "ex_entity None None" "Other ''network''"
      "Other ''network''"]
  by (simp add: ex_api_def api_send_down_def ex_entity_def update_defs)

subsection \<open>Platform setup\<close>

text \<open>
  The loop over a listing in which every device has a \<^verbatim>\<open>"type"\<close> and every bobbie a
  \<^verbatim>\<open>"serial_number"\<close> and a \<^verbatim>\<open>"name"\<close>: it appends one entity per bobbie, in the
  listing's order, and logs once per entity.
\<close>

lemma setup_loop_well_formed:
  assumes "\<forall>d \<in> set devices. d ''type'' \<noteq> None \<and>
             (d ''type'' = Some (PStr ''bobbie'') \<longrightarrow>
                d ''serial_number'' \<noteq> None \<and> d ''name'' \<noteq> None)"
  shows "setup_loop base devices all_devices tr =
     (Inr (all_devices @
        map (\<lambda>d. \<lparr> p_name = the (d ''name''),
                    p_serial_number = the (d ''serial_number''),
                    p_data = d, p_state = PNone,
                    p_cur_settings = None, p_status_data = None,
                    attr_available = (case d ''online'' of None \<Rightarrow> PBool False | Some v \<Rightarrow> v),
                    attr_current_operation = base \<rparr>)
          (filter (\<lambda>d. d ''type'' = Some (PStr ''bobbie'')) devices)),
      tr @ replicate (length (filter (\<lambda>d. d ''type'' = Some (PStr ''bobbie'')) devices))
             (Log DEBUG))"
  using assms
proof (induction devices arbitrary: all_devices tr)
  case Nil
  then show ?case by simp
next
  case (Cons d ds)
  then obtain ty where ty: "d ''type'' = Some ty" by auto
  show ?case
  proof (cases "ty = PStr ''bobbie''")
    case True
    with Cons.prems ty obtain sn n where "d ''serial_number'' = Some sn" "d ''name'' = Some n"
      by auto
    with True ty Cons show ?thesis
      by (simp add: getitem_def init_def get_default_def replicate_app_Cons_same)
  next
    case False
    with ty Cons show ?thesis
      by (simp add: getitem_def)
  qed
qed

text \<open>
  C6, as stated for every device listing, fails: a bobbie without a \<^verbatim>\<open>"name"\<close> makes
  \<^verbatim>\<open>__init__\<close> raise \<open>KeyError\<close>, which leaves the setup before
  \<^verbatim>\<open>async_add_entities\<close> is reached, so the complete bobbie listed before it gets no
  entity either.
\<close>

theorem setup_nameless_counterexample:
  "async_fetch_devices api_nameless [] =
     Inr [(PStr ''SN1'', ex_bobbie), (PStr ''SN3'', ex_nameless)] \<and>
   ex_bobbie ''type'' = Some (PStr ''bobbie'') \<and>
   ex_nameless ''type'' = Some (PStr ''bobbie'') \<and>
   async_setup_platform None api_nameless [] = (Inl KeyError, [FetchDevices, Log DEBUG])"
  by (simp add: async_setup_platform_def init_def getitem_def get_default_def
      api_nameless_def ex_api_def ex_bobbie_def ex_nameless_def)

text \<open>
  C6 (amended). For every device listing returned by the client in which every device has
  a type field and every bobbie a serial number and a name, \<^verbatim>\<open>async_setup_platform\<close>
  hands to \<^verbatim>\<open>async_add_entities\<close> exactly one entity per device whose type is
  \<^verbatim>\<open>"bobbie"\<close>, in the listing's order, built from that device's serial number and with
  the device as its initial data, and no entity for a device of another type.
\<close>

theorem setup_one_entity_per_bobbie:
  assumes "async_fetch_devices a tr = Inr devices"
    and "\<forall>d \<in> set (map snd devices). d ''type'' \<noteq> None \<and>
             (d ''type'' = Some (PStr ''bobbie'') \<longrightarrow>
                d ''serial_number'' \<noteq> None \<and> d ''name'' \<noteq> None)"
  shows "fst (async_setup_platform base a tr) =
     Inr (map (\<lambda>d. \<lparr> p_name = the (d ''name''),
                    p_serial_number = the (d ''serial_number''),
                    p_data = d, p_state = PNone,
                    p_cur_settings = None, p_status_data = None,
                    attr_available = (case d ''online'' of None \<Rightarrow> PBool False | Some v \<Rightarrow> v),
                    attr_current_operation = base \<rparr>)
          (filter (\<lambda>d. d ''type'' = Some (PStr ''bobbie'')) (map snd devices)))"
  using assms(1) setup_loop_well_formed [OF assms(2), of base "[]" "tr @ [FetchDevices]"]
  by (simp add: async_setup_platform_def)

theorem setup_one_entity_per_bobbie_witness:
  "fst (async_setup_platform None ex_api []) =
     Inr [\<lparr> p_name = PStr ''Bobbie'', p_serial_number = PStr ''SN1'',
            p_data = ex_bobbie, p_state = PNone,
            p_cur_settings = None, p_status_data = None,
            attr_available = PBool True, attr_current_operation = None \<rparr>]"
proof -
  have fetched: "async_fetch_devices ex_api [] =
      Inr [(PStr ''SN1'', ex_bobbie), (PStr ''SN2'', ex_melissa)]"
    by (simp add: ex_api_def)
  have well_formed:
    "\<forall>d \<in> set (map snd [(PStr ''SN1'', ex_bobbie), (PStr ''SN2'', ex_melissa)]).
       d ''type'' \<noteq> None \<and>
       (d ''type'' = Some (PStr ''bobbie'') \<longrightarrow>
          d ''serial_number'' \<noteq> None \<and> d ''name'' \<noteq> None)"
    by (simp add: ex_bobbie_def ex_melissa_def)
  have "filter (\<lambda>d. d ''type'' = Some (PStr ''bobbie''))
      (map snd [(PStr ''SN1'', ex_bobbie), (PStr ''SN2'', ex_melissa)]) = [ex_bobbie]"
    by (simp add: ex_bobbie_def ex_melissa_def)
  with setup_one_entity_per_bobbie [OF fetched well_formed, of None]
  show ?thesis
    by (simp add: ex_bobbie_def)
qed

subsection \<open>Extended attributes and temperature\<close>

text \<open>
  C7, as stated for every fetched status payload, fails: with a cached payload that has
  no hot temperature, which \<^verbatim>\<open>current_temperature\<close> answers with 0, the subscripts of
  \<^verbatim>\<open>extra_state_attributes\<close> raise \<open>KeyError\<close> and no map is returned.
\<close>

theorem extra_state_attributes_counterexample:
  "p_status_data (ex_entity (Some ex_status_no_hot) None) = Some ex_status_no_hot \<and>
   ex_status_no_hot ATTR_HOT = None \<and>
   current_temperature (ex_entity (Some ex_status_no_hot) None) = PInt 0 \<and>
   extra_state_attributes Inr (ex_entity (Some ex_status_no_hot) None) = Inl KeyError"
  by (simp add: extra_state_attributes_def current_temperature_def try_bind_def getitem_def
      get_default_def ex_entity_def ex_status_no_hot_def ATTR_defs)

text \<open>
  C7 (amended). Whenever a status payload is cached that holds the eight fields, and the
  display conversion of its three temperatures returns, \<^verbatim>\<open>extra_state_attributes\<close>
  returns a map of exactly eight entries: hot, cold and home are the payload's
  temperatures as converted for display; energy, voltage, current, relay state and load
  are the payload's own values.
\<close>

theorem extra_state_attributes_eight:
  assumes "p_status_data self = Some sd"
    and "sd ATTR_COLD = Some c" and "sd ATTR_HOT = Some h" and "sd ATTR_HOME = Some m"
    and "sd ATTR_ENERGY = Some energy" and "sd ATTR_VOLTAGE = Some voltage"
    and "sd ATTR_CURRENT = Some current" and "sd ATTR_RELAY = Some relay"
    and "sd ATTR_LOAD = Some load"
    and "show_temp c = Inr cold" and "show_temp h = Inr hot" and "show_temp m = Inr home"
  shows "\<exists>attrs. extra_state_attributes show_temp self = Inr attrs \<and>
     dom attrs = {ATTR_HOT, ATTR_COLD, ATTR_HOME, ATTR_ENERGY, ATTR_VOLTAGE, ATTR_CURRENT,
                  ATTR_RELAY, ATTR_LOAD} \<and>
     card (dom attrs) = 8 \<and>
     attrs ATTR_HOT = Some hot \<and> attrs ATTR_COLD = Some cold \<and> attrs ATTR_HOME = Some home \<and>
     attrs ATTR_ENERGY = sd ATTR_ENERGY \<and> attrs ATTR_VOLTAGE = sd ATTR_VOLTAGE \<and>
     attrs ATTR_CURRENT = sd ATTR_CURRENT \<and> attrs ATTR_RELAY = sd ATTR_RELAY \<and>
     attrs ATTR_LOAD = sd ATTR_LOAD"
proof -
  let ?attrs = "[ATTR_COLD \<mapsto> cold, ATTR_HOT \<mapsto> hot, ATTR_HOME \<mapsto> home,
                 ATTR_ENERGY \<mapsto> energy, ATTR_VOLTAGE \<mapsto> voltage,
                 ATTR_CURRENT \<mapsto> current, ATTR_RELAY \<mapsto> relay,
                 ATTR_LOAD \<mapsto> load]"
  have returned: "extra_state_attributes show_temp self = Inr ?attrs"
    using assms by (simp add: extra_state_attributes_def try_bind_def getitem_def)
  have keys: "dom ?attrs = {ATTR_HOT, ATTR_COLD, ATTR_HOME, ATTR_ENERGY, ATTR_VOLTAGE,
                  ATTR_CURRENT, ATTR_RELAY, ATTR_LOAD}"
    by auto
  have eight: "card (dom ?attrs) = 8"
    unfolding keys by (simp add: ATTR_defs)
  have entries: "?attrs ATTR_HOT = Some hot \<and> ?attrs ATTR_COLD = Some cold \<and>
     ?attrs ATTR_HOME = Some home \<and>
     ?attrs ATTR_ENERGY = sd ATTR_ENERGY \<and> ?attrs ATTR_VOLTAGE = sd ATTR_VOLTAGE \<and>
     ?attrs ATTR_CURRENT = sd ATTR_CURRENT \<and> ?attrs ATTR_RELAY = sd ATTR_RELAY \<and>
     ?attrs ATTR_LOAD = sd ATTR_LOAD"
    using assms by (simp add: ATTR_defs)
  from returned keys eight entries show ?thesis by blast
qed

theorem extra_state_attributes_eight_witness:
  "\<exists>attrs. extra_state_attributes Inr (ex_entity (Some ex_status) None) = Inr attrs \<and>
     dom attrs = {ATTR_HOT, ATTR_COLD, ATTR_HOME, ATTR_ENERGY, ATTR_VOLTAGE, ATTR_CURRENT,
                  ATTR_RELAY, ATTR_LOAD} \<and>
     card (dom attrs) = 8 \<and>
     attrs ATTR_HOT = Some (PInt 60) \<and> attrs ATTR_COLD = Some (PInt 15) \<and>
     attrs ATTR_HOME = Some (PInt 20) \<and> attrs ATTR_ENERGY = Some (PInt 3) \<and>
     attrs ATTR_VOLTAGE = Some (PInt 230) \<and> attrs ATTR_CURRENT = Some (PInt 0) \<and>
     attrs ATTR_RELAY = Some (PBool True) \<and> attrs ATTR_LOAD = Some (PBool False)"
proof -
  have cached: "p_status_data (ex_entity (Some ex_status) None) = Some ex_status"
    by (simp add: ex_entity_def)
  have fields: "ex_status ATTR_COLD = Some (PInt 15)" "ex_status ATTR_HOT = Some (PInt 60)"
    "ex_status ATTR_HOME = Some (PInt 20)" "ex_status ATTR_ENERGY = Some (PInt 3)"
    "ex_status ATTR_VOLTAGE = Some (PInt 230)" "ex_status ATTR_CURRENT = Some (PInt 0)"
    "ex_status ATTR_RELAY = Some (PBool True)" "ex_status ATTR_LOAD = Some (PBool False)"
    by (simp_all add: ex_status_def ATTR_defs)
  from extra_state_attributes_eight [of _ _ _ _ _ _ _ _ _ _ Inr, OF cached fields refl refl refl]
  show ?thesis by (simp add: fields)
qed

text \<open>
  C8. Before any status payload has been fetched (the status cache is \<^verbatim>\<open>None\<close>),
  \<^verbatim>\<open>extra_state_attributes\<close> returns the empty map: it does not raise and holds no entry.
\<close>

theorem extra_state_attributes_unfetched:
  "p_status_data self = None \<Longrightarrow> extra_state_attributes show_temp self = Inr Map.empty"
  by (simp add: extra_state_attributes_def)

theorem extra_state_attributes_unfetched_witness:
  "extra_state_attributes Inr (ex_entity None None) = Inr Map.empty"
proof -
  have "p_status_data (ex_entity None None) = None"
    by (simp add: ex_entity_def)
  then show ?thesis
    by (rule extra_state_attributes_unfetched)
qed

text \<open>
  C9. \<^verbatim>\<open>current_temperature\<close> returns \<^verbatim>\<open>None\<close> while the status cache is \<^verbatim>\<open>None\<close>; with a
  cached payload it returns the payload's hot temperature, and 0 when the payload has
  none. Its result is a value in every case: it never raises.
\<close>

theorem current_temperature_get:
  "(p_status_data self = None \<longrightarrow> current_temperature self = PNone) \<and>
   (p_status_data self = Some sd \<and> sd ATTR_HOT = Some v \<longrightarrow> current_temperature self = v) \<and>
   (p_status_data self = Some sd \<and> sd ATTR_HOT = None \<longrightarrow> current_temperature self = PInt 0)"
  by (simp add: current_temperature_def get_default_def)

theorem current_temperature_get_witness:
  "current_temperature (ex_entity None None) = PNone \<and>
   current_temperature (ex_entity (Some ex_status) None) = PInt 60 \<and>
   current_temperature (ex_entity (Some Map.empty) None) = PInt 0"
  using current_temperature_get [of "ex_entity None None"]
    current_temperature_get [of "ex_entity (Some ex_status) None" ex_status "PInt 60"]
    current_temperature_get [of "ex_entity (Some Map.empty) None" Map.empty]
  by (simp add: ex_entity_def ex_status_def ATTR_defs)

subsection \<open>Availability\<close>

text \<open>
  Along every sequence of calls, the initial data stay what they were, and as long as the
  settings cache is \<^verbatim>\<open>None\<close> the availability flag is the one \<^verbatim>\<open>__init__\<close> assigned.
\<close>

lemma call_step_invariant:
  assumes "p_data (fst s) = d"
    and "p_cur_settings (fst s) = None \<longrightarrow> attr_available (fst s) = v"
  shows "p_data (fst (call_step a c s)) = d \<and>
    (p_cur_settings (fst (call_step a c s)) = None \<longrightarrow>
       attr_available (fst (call_step a c s)) = v)"
proof -
  obtain self tr where s: "s = (self, tr)" by (cases s)
  show ?thesis
  proof (cases c)
    case Update
    with s assms async_update_frame [of a self tr] async_update_settings_kept [of a self tr]
    show ?thesis by auto
  next
    case TurnOn
    with s assms send_then_update_frame [of a None self tr]
    show ?thesis by (auto simp: async_turn_on_def)
  next
    case TurnOff
    with s assms send_then_update_frame [of a "Some [''state'' \<mapsto> PStr ''off'']" self tr]
    show ?thesis by (auto simp: async_turn_off_def)
  next
    case ReadAvailable
    with s assms available_frame [of self] show ?thesis
      by (auto simp: available_unfetched)
  next
    case ReadCurrentOperation
    with s assms current_operation_frame [of self] show ?thesis by auto
  qed (use s assms in auto)
qed

lemma calls_invariant:
  assumes "p_data (fst s) = d"
    and "p_cur_settings (fst s) = None \<longrightarrow> attr_available (fst s) = v"
  shows "p_data (fst (calls a cs s)) = d \<and>
    (p_cur_settings (fst (calls a cs s)) = None \<longrightarrow> attr_available (fst (calls a cs s)) = v)"
  using assms
proof (induction cs arbitrary: s)
  case Nil
  then show ?case by simp
next
  case (Cons c cs)
  from call_step_invariant [OF Cons.prems, of a c]
  show ?case by (simp add: Cons.IH)
qed

text \<open>
  C10. Once settings are cached, \<^verbatim>\<open>available\<close> returns their \<^verbatim>\<open>"online"\<close> entry, and
  \<^verbatim>\<open>False\<close> when they have none; after an update that fetched settings, these are the
  settings just fetched. As long as no settings have been cached, whatever was called on
  the entity since \<^verbatim>\<open>__init__\<close>, it returns the \<^verbatim>\<open>"online"\<close> entry of the initial data, and
  \<^verbatim>\<open>False\<close> when they have none.
\<close>

theorem available_online:
  "(p_cur_settings self = Some cs \<longrightarrow>
      fst (available self) = (case cs ''online'' of None \<Rightarrow> PBool False | Some v \<Rightarrow> v)) \<and>
   (async_status a tr True = Inr statuses \<and> statuses (p_serial_number self) = Some sd \<and>
    async_cur_settings a (tr @ [Status True, Log DEBUG]) (p_serial_number self) = Inr settings \<and>
    settings ''controller'' = Some cs \<longrightarrow>
      fst (available (fst (snd (async_update a self tr)))) =
        (case cs ''online'' of None \<Rightarrow> PBool False | Some v \<Rightarrow> v)) \<and>
   (init base sn init_data tr0 = (Inr self0, tr1) \<and>
    p_cur_settings (fst (calls a ops (self0, tr1))) = None \<longrightarrow>
      fst (available (fst (calls a ops (self0, tr1)))) =
        (case init_data ''online'' of None \<Rightarrow> PBool False | Some v \<Rightarrow> v))"
proof -
  have settled: "p_cur_settings self = Some cs \<longrightarrow>
      fst (available self) = (case cs ''online'' of None \<Rightarrow> PBool False | Some v \<Rightarrow> v)"
    for self :: entity and cs
    by (simp add: available_def get_default_def)
  have fetched: "async_status a tr True = Inr statuses \<and>
    statuses (p_serial_number self) = Some sd \<and>
    async_cur_settings a (tr @ [Status True, Log DEBUG]) (p_serial_number self) = Inr settings \<and>
    settings ''controller'' = Some cs \<longrightarrow>
      p_cur_settings (fst (snd (async_update a self tr))) = Some cs"
    by (simp add: update_defs)
  have initial: "fst (available (fst (calls a ops (self0, tr1)))) =
        (case init_data ''online'' of None \<Rightarrow> PBool False | Some v \<Rightarrow> v)"
    if i: "init base sn init_data tr0 = (Inr self0, tr1)"
      and n: "p_cur_settings (fst (calls a ops (self0, tr1))) = None"
  proof -
    from i have "p_data self0 = init_data"
      and "attr_available self0 = get_default init_data ''online'' (PBool False)"
      by (auto simp: init_def split: sum.splits)
    then have "p_cur_settings (fst (calls a ops (self0, tr1))) = None \<longrightarrow>
       attr_available (fst (calls a ops (self0, tr1))) =
         get_default init_data ''online'' (PBool False)"
      using calls_invariant [of "(self0, tr1)" init_data
          "get_default init_data ''online'' (PBool False)" a ops]
      by simp
    with n show ?thesis
      by (simp add: available_unfetched get_default_def)
  qed
  from settled [of self cs] settled fetched initial show ?thesis by blast
qed

theorem available_online_witness:
  "fst (available (ex_entity None (Some [''online'' \<mapsto> PBool True]))) = PBool True \<and>
   fst (available (ex_entity None (Some Map.empty))) = PBool False \<and>
   fst (available (fst (snd (async_update ex_api (ex_entity None None) [])))) = PBool True \<and>
   fst (available (fst (calls api_unknown_serial [Update, ReadAvailable, TurnOn]
     (\<lparr> p_name = PStr ''Bobbie'', p_serial_number = PStr ''SN1'',
        p_data = ex_bobbie, p_state = PNone,
        p_cur_settings = None, p_status_data = None,
        attr_available = PBool True, attr_current_operation = None \<rparr>,
      [Log DEBUG])))) = PBool True \<and>
   fst (available (fst (calls api_unknown_serial [Update, ReadAvailable, TurnOn]
     (\<lparr> p_name = PStr ''Melissa'', p_serial_number = PStr ''SN2'',
        p_data = ex_melissa, p_state = PNone,
        p_cur_settings = None, p_status_data = None,
        attr_available = PBool False, attr_current_operation = None \<rparr>,
      [Log DEBUG])))) = PBool False"
proof -
  let ?ops = "[Update, ReadAvailable, TurnOn]"
  let ?bobbie = "\<lparr> p_name = PStr ''Bobbie'', p_serial_number = PStr ''SN1'',
        p_data = ex_bobbie, p_state = PNone,
        p_cur_settings = None, p_status_data = None,
        attr_available = PBool True, attr_current_operation = None \<rparr>"
  let ?melissa = "\<lparr> p_name = PStr ''Melissa'', p_serial_number = PStr ''SN2'',
        p_data = ex_melissa, p_state = PNone,
        p_cur_settings = None, p_status_data = None,
        attr_available = PBool False, attr_current_operation = None \<rparr>"
  have built: "init None (PStr ''SN1'') ex_bobbie [] = (Inr ?bobbie, [Log DEBUG])"
    "init None (PStr ''SN2'') ex_melissa [] = (Inr ?melissa, [Log DEBUG])"
    by (simp_all add: init_def getitem_def get_default_def ex_bobbie_def ex_melissa_def)
  have unfetched:
    "p_cur_settings (fst (calls api_unknown_serial ?ops (?bobbie, [Log DEBUG]))) = None"
    "p_cur_settings (fst (calls api_unknown_serial ?ops (?melissa, [Log DEBUG]))) = None"
    by (simp_all add: update_defs async_turn_on_def send_then_update_def available_def
        api_unknown_serial_def ex_api_def)
  have online: "ex_bobbie ''online'' = Some (PBool True)" "ex_melissa ''online'' = None"
    by (simp_all add: ex_bobbie_def ex_melissa_def)
  from available_online [of "ex_entity None (Some [''online'' \<mapsto> PBool True])"
      "[''online'' \<mapsto> PBool True]"]
  have first: "fst (available (ex_entity None (Some [''online'' \<mapsto> PBool True]))) =
      PBool True"
    by (simp add: ex_entity_def)
  from available_online [of "ex_entity None (Some Map.empty)" Map.empty]
  have second: "fst (available (ex_entity None (Some Map.empty))) = PBool False"
    by (simp add: ex_entity_def)
  from available_online [of "ex_entity None None" "[''online'' \<mapsto> PBool True]" ex_api "[]"
      "[PStr ''SN1'' \<mapsto> ex_status]" ex_status
      "[''controller'' \<mapsto> [''online'' \<mapsto> PBool True]]"]
  have third: "fst (available (fst (snd (async_update ex_api (ex_entity None None) [])))) =
      PBool True"
    by (simp add: ex_api_def ex_entity_def)
  from available_online [where base = None and sn = "PStr ''SN1''" and init_data = ex_bobbie
      and ?tr0.0 = "[]" and ?self0.0 = ?bobbie and ?tr1.0 = "[Log DEBUG]"
      and a = api_unknown_serial and ops = ?ops] built(1) unfetched(1) online(1)
  have fourth: "fst (available (fst (calls api_unknown_serial ?ops (?bobbie, [Log DEBUG])))) =
      PBool True"
    by simp
  from available_online [where base = None and sn = "PStr ''SN2''" and init_data = ex_melissa
      and ?tr0.0 = "[]" and ?self0.0 = ?melissa and ?tr1.0 = "[Log DEBUG]"
      and a = api_unknown_serial and ops = ?ops] built(2) unfetched(2) online(2)
  have fifth: "fst (available (fst (calls api_unknown_serial ?ops (?melissa, [Log DEBUG])))) =
      PBool False"
    by simp
  from first second third fourth fifth show ?thesis by simp
qed

end
